theory Spec2Isabelle
  imports Main "HOL-Library.Sublist"
begin

section \<open>ApiHitos: the HTTP layer of \<^verbatim>\<open>server.js\<close>\<close>

text \<open>
  \<^verbatim>\<open>server.js\<close> maps HTTP requests to SQL statements on two tables, \<^verbatim>\<open>etapas\<close>
  (stages) and \<^verbatim>\<open>hitos\<close> (milestones), and accepts image uploads. The specification
  writes the identifiers in English (stage, milestone, \<^verbatim>\<open>location\<close>, field "image");
  the definitions below keep the names of the code (\<^verbatim>\<open>etapas\<close>, \<^verbatim>\<open>hitos\<close>,
  \<^verbatim>\<open>ubicacion\<close>, field \<^verbatim>\<open>imagen\<close>).

  The handlers are translated from \<^verbatim>\<open>server.js\<close>. What they call and the repository
  does not contain (Node's \<^verbatim>\<open>path.extname\<close>, the multer middleware, the mysql2 driver
  and the MySQL server) is modelled from the behaviour of those libraries, each
  assumption written where it is made.
\<close>

subsection \<open>Responses\<close>

text \<open>
  The messages of the \<^verbatim>\<open>{error: ...}\<close> bodies, by the handler that sends them (the
  Spanish texts hold letters outside ASCII):
  \<^verbatim>\<open>'Error al obtener etapas'\<close>, \<^verbatim>\<open>'Error al crear etapa'\<close>,
  \<^verbatim>\<open>'No se puede eliminar esta etapa porque esta siendo utilizada por uno o mas hitos'\<close>,
  \<^verbatim>\<open>'Error al eliminar etapa'\<close>, \<^verbatim>\<open>'Error al obtener hitos'\<close>,
  \<^verbatim>\<open>'Error al crear hito'\<close>, \<^verbatim>\<open>'Error al actualizar hito'\<close>,
  \<^verbatim>\<open>'Error al eliminar hito'\<close>, \<^verbatim>\<open>'No se ha enviado ninguna imagen'\<close>.
\<close>

datatype message =
    Error_al_obtener_etapas
  | Error_al_crear_etapa
  | Etapa_utilizada_por_hitos
  | Error_al_eliminar_etapa
  | Error_al_obtener_hitos
  | Error_al_crear_hito
  | Error_al_actualizar_hito
  | Error_al_eliminar_hito
  | No_se_ha_enviado_ninguna_imagen

subsection \<open>Strings of JavaScript\<close>

text \<open>
  \<^verbatim>\<open>String.prototype.toLowerCase\<close> on the ASCII letters; every other byte is kept.
  (No character outside ASCII lowercases to one of the letters of the four tokens
  tested below.)
\<close>

definition lower_char :: "char \<Rightarrow> char" where
  "lower_char c =
     (if 65 \<le> (of_char c :: nat) \<and> (of_char c :: nat) \<le> 90
      then char_of ((of_char c :: nat) + 32) else c)"

definition toLowerCase :: "string \<Rightarrow> string" where
  "toLowerCase s = map lower_char s"

text \<open>A number converted to a string by \<^verbatim>\<open>+\<close>: its decimal digits.\<close>

definition digit_char :: "nat \<Rightarrow> char" where
  "digit_char d = ''0123456789'' ! d"

function string_of_nat :: "nat \<Rightarrow> string" where
  "string_of_nat n =
     (if n < 10 then [digit_char n]
      else string_of_nat (n div 10) @ [digit_char (n mod 10)])"
  by pat_completeness auto
termination
  by (relation "measure id") auto

declare string_of_nat.simps [simp del]

subsection \<open>\<^verbatim>\<open>path.extname\<close>\<close>

text \<open>
  Node's POSIX \<^verbatim>\<open>path.extname\<close>: one pass over the path from its last character to
  its first, tracking the last dot of the last path component. \<^verbatim>\<open>-1\<close> is "not seen
  yet", as in Node. The loop leaves at the first \<^verbatim>\<open>/\<close> that is not a trailing one;
  \<^verbatim>\<open>extname_char\<close> is the rest of the loop body, for a character that is not \<^verbatim>\<open>/\<close>.
\<close>

record ext_state =
  startDot :: int
  startPart :: int
  end_ix :: int
  matchedSlash :: bool
  preDotState :: int

definition extname_char :: "char \<Rightarrow> nat \<Rightarrow> ext_state \<Rightarrow> ext_state" where
  "extname_char code i st =
     (let st1 = (if end_ix st = -1
                 then st\<lparr>matchedSlash := False, end_ix := int i + 1\<rparr> else st)
      in if code = CHR ''.'' then
           (if startDot st1 = -1 then st1\<lparr>startDot := int i\<rparr>
            else if preDotState st1 \<noteq> 1 then st1\<lparr>preDotState := 1\<rparr>
            else st1)
         else if startDot st1 \<noteq> -1 then st1\<lparr>preDotState := -1\<rparr>
         else st1)"

fun extname_loop :: "string \<Rightarrow> nat \<Rightarrow> ext_state \<Rightarrow> ext_state" where
  "extname_loop path 0 st = st"
| "extname_loop path (Suc i) st =
     (if path ! i = CHR ''/'' then
        (if \<not> matchedSlash st then st\<lparr>startPart := int i + 1\<rparr>
         else extname_loop path i st)
      else extname_loop path i (extname_char (path ! i) i st))"

definition extname :: "string \<Rightarrow> string" where
  "extname path =
     (let st = extname_loop path (length path)
                 \<lparr>startDot = -1, startPart = 0, end_ix = -1,
                  matchedSlash = True, preDotState = 0\<rparr>
      in if startDot st = -1 \<or> end_ix st = -1 \<or> preDotState st = 0
            \<or> (preDotState st = 1 \<and> startDot st = end_ix st - 1
                \<and> startDot st = startPart st + 1)
         then []
         else take (nat (end_ix st) - nat (startDot st)) (drop (nat (startDot st)) path))"

subsection \<open>The upload middleware\<close>

text \<open>
  A file part of a multipart request, as multer hands it to \<^verbatim>\<open>fileFilter\<close> and to
  the storage: the name of the form field, the file name the client gave, the
  content type the client declared, and the number of bytes that follow.
\<close>

record upload_file =
  fieldname :: string
  originalname :: string
  mimetype :: string
  file_size :: nat

datatype upload_error =
    Solo_se_permiten_imagenes
  | LIMIT_FILE_SIZE
  | LIMIT_UNEXPECTED_FILE

text \<open>
  \<^verbatim>\<open>/jpeg|jpg|png|gif/.test(s)\<close>: the expression has no anchors and no flags, so the
  test holds when one of the four alternatives starts at some position of \<^verbatim>\<open>s\<close>.
\<close>

fun filetypes_test :: "string \<Rightarrow> bool" where
  "filetypes_test [] = False"
| "filetypes_test (c # cs) =
     (prefix ''jpeg'' (c # cs) \<or> prefix ''jpg'' (c # cs) \<or> prefix ''png'' (c # cs)
      \<or> prefix ''gif'' (c # cs) \<or> filetypes_test cs)"

definition fileFilter :: "upload_file \<Rightarrow> upload_error + bool" where
  "fileFilter file =
     (let mimetype_ok = filetypes_test (mimetype file);
          extname_ok = filetypes_test (toLowerCase (extname (originalname file)))
      in if mimetype_ok \<and> extname_ok then Inr True
         else Inl Solo_se_permiten_imagenes)"

definition fileSize :: nat where
  "fileSize = 5 * 1024 * 1024"

text \<open>
  \<^verbatim>\<open>filename\<close> of the disk storage: \<^verbatim>\<open>Date.now() + path.extname(file.originalname)\<close>.
  (\<^verbatim>\<open>destination\<close> makes the directory \<^verbatim>\<open>uploads\<close> when it is missing; the file system
  is not part of the model, and writing the file does not fail in it.)
\<close>

definition filename :: "nat \<Rightarrow> upload_file \<Rightarrow> string" where
  "filename now file = string_of_nat now @ extname (originalname file)"

text \<open>
  \<^verbatim>\<open>upload.single('imagen')\<close>, as multer runs it over the file parts of a request in
  their order: a part with an empty file name is skipped; a part under another
  field name, or a second part under \<^verbatim>\<open>imagen\<close>, aborts with
  \<^verbatim>\<open>LIMIT_UNEXPECTED_FILE\<close>; then \<^verbatim>\<open>fileFilter\<close> decides; then the storage reads the
  bytes and aborts with \<^verbatim>\<open>LIMIT_FILE_SIZE\<close> once \<^verbatim>\<open>limits.fileSize\<close> bytes have come
  (busboy 1.x, the parser under multer 1.4.5-lts and 2.x, raises the limit when the
  count of bytes reaches it, so the largest file stored has one byte less than the
  limit). The result is \<^verbatim>\<open>req.file.filename\<close>, or nothing when no part was stored.
  \<^verbatim>\<open>left\<close> is how many more files the field may take (1 at the start).
\<close>

fun single :: "nat \<Rightarrow> nat \<Rightarrow> upload_file list \<Rightarrow> string option \<Rightarrow> upload_error + string option" where
  "single now left [] req_file = Inr req_file"
| "single now left (file # files) req_file =
     (if originalname file = [] then single now left files req_file
      else if fieldname file \<noteq> ''imagen'' \<or> left = 0 then Inl LIMIT_UNEXPECTED_FILE
      else (case fileFilter file of
              Inl err \<Rightarrow> Inl err
            | Inr include \<Rightarrow>
                if \<not> include then single now (left - 1) files req_file
                else if file_size file \<ge> fileSize then Inl LIMIT_FILE_SIZE
                else single now (left - 1) files (Some (filename now file))))"

text \<open>
  The body of a response. \<^verbatim>\<open>Error_page\<close> is what Express sends for an error a
  middleware passed to \<^verbatim>\<open>next\<close> and no handler of the application caught.
\<close>

datatype upload_reply =
    Upload_error message
  | Upload_url string
  | Error_page

text \<open>
  \<^verbatim>\<open>app.post('/api/upload', upload.single('imagen'), ...)\<close>. An error of the
  middleware has no \<^verbatim>\<open>status\<close>, so Express answers 500. \<^verbatim>\<open>protocol\<close> is
  \<^verbatim>\<open>req.protocol\<close>, \<^verbatim>\<open>host\<close> is \<^verbatim>\<open>req.get('host')\<close>, \<^verbatim>\<open>now\<close> is \<^verbatim>\<open>Date.now()\<close>.
\<close>

definition post_upload :: "string \<Rightarrow> string \<Rightarrow> nat \<Rightarrow> upload_file list \<Rightarrow> nat \<times> upload_reply" where
  "post_upload protocol host now files =
     (case single now 1 files None of
        Inl err \<Rightarrow> (500, Error_page)
      | Inr None \<Rightarrow> (400, Upload_error No_se_ha_enviado_ninguna_imagen)
      | Inr (Some name) \<Rightarrow> (200, Upload_url (protocol @ ''://'' @ host @ ''/uploads/'' @ name)))"

subsection \<open>Request bodies and query parameters\<close>

text \<open>
  \<^verbatim>\<open>req.body\<close> is the object that \<^verbatim>\<open>express.json()\<close> parsed (the empty object when
  the request has no JSON body). A member is absent (\<^verbatim>\<open>undefined\<close> after
  destructuring), \<^verbatim>\<open>null\<close>, a boolean, a whole number or a string. Numbers with a
  fraction, arrays and nested objects are outside the model.
\<close>

datatype jsval = JUndefined | JNull | JBool bool | JNum int | JStr string

type_synonym body = "string \<Rightarrow> jsval option"

definition field_of :: "body \<Rightarrow> string \<Rightarrow> jsval" where
  "field_of req_body name = (case req_body name of None \<Rightarrow> JUndefined | Some v \<Rightarrow> v)"

fun falsy :: "jsval \<Rightarrow> bool" where
  "falsy JUndefined = True"
| "falsy JNull = True"
| "falsy (JBool b) = (\<not> b)"
| "falsy (JNum n) = (n = 0)"
| "falsy (JStr s) = (s = [])"

text \<open>\<^verbatim>\<open>v || null\<close>\<close>

definition or_null :: "jsval \<Rightarrow> jsval" where
  "or_null v = (if falsy v then JNull else v)"

text \<open>
  \<^verbatim>\<open>pool.query(sql, values)\<close> of mysql2 builds the statement text on the client: each
  \<^verbatim>\<open>?\<close> is replaced by the escaped value (\<^verbatim>\<open>SqlString.escape\<close>), and that function
  writes \<^verbatim>\<open>NULL\<close> for \<^verbatim>\<open>undefined\<close> as for \<^verbatim>\<open>null\<close>. (Only \<^verbatim>\<open>execute\<close>, the
  prepared-statement call that \<^verbatim>\<open>server.js\<close> never makes, refuses an \<^verbatim>\<open>undefined\<close>
  parameter.)
\<close>

datatype sqlval = SqlNull | SqlBool bool | SqlNum int | SqlStr string

fun escape :: "jsval \<Rightarrow> sqlval" where
  "escape JUndefined = SqlNull"
| "escape JNull = SqlNull"
| "escape (JBool b) = SqlBool b"
| "escape (JNum n) = SqlNum n"
| "escape (JStr s) = SqlStr s"

subsection \<open>The tables\<close>

text \<open>
  How the server converts a literal that is not \<^verbatim>\<open>NULL\<close> to the type of a column
  (\<^verbatim>\<open>INT\<close>, \<^verbatim>\<open>DATE\<close>, \<^verbatim>\<open>VARCHAR(n)\<close> and \<^verbatim>\<open>TEXT\<close> by their width) is a parameter of
  the model: \<^verbatim>\<open>None\<close> when the server refuses the value. So is \<^verbatim>\<open>json_date\<close>, the
  text that a response shows for a stored \<^verbatim>\<open>DATE\<close>: the pool is created without
  \<^verbatim>\<open>dateStrings\<close>, so mysql2 hands a \<^verbatim>\<open>DATE\<close> column to JavaScript as a \<^verbatim>\<open>Date\<close> (midnight
  of that day in the time zone of the process), and \<^verbatim>\<open>res.json\<close> prints a \<^verbatim>\<open>Date\<close> as
  an ISO instant in UTC. \<^verbatim>\<open>plain\<close> is the instance used for concrete runs: whole
  numbers of 32 bits into \<^verbatim>\<open>INT\<close>, strings into \<^verbatim>\<open>DATE\<close>, strings within the width
  into text columns, and a process in UTC, where the day \<^verbatim>\<open>2024-04-01\<close> is printed as
  \<^verbatim>\<open>2024-04-01T00:00:00.000Z\<close>.
\<close>

record coercion =
  int_of :: "sqlval \<Rightarrow> int option"
  date_of :: "sqlval \<Rightarrow> string option"
  text_of :: "nat \<Rightarrow> sqlval \<Rightarrow> string option"
  json_date :: "string \<Rightarrow> string"

definition plain :: coercion where
  "plain =
     \<lparr>int_of = (\<lambda>v. case v of
                  SqlNum n \<Rightarrow> if - 2147483648 \<le> n \<and> n \<le> 2147483647 then Some n else None
                | _ \<Rightarrow> None),
      date_of = (\<lambda>v. case v of SqlStr s \<Rightarrow> Some s | _ \<Rightarrow> None),
      text_of = (\<lambda>width v. case v of
                  SqlStr s \<Rightarrow> if length s \<le> width then Some s else None
                | _ \<Rightarrow> None),
      json_date = (\<lambda>day. day @ ''T00:00:00.000Z'')\<rparr>"

datatype sql_error =
    ER_REJECTED
  | ER_NO_SUCH_TABLE
  | ER_BAD_NULL_ERROR
  | ER_WRONG_VALUE
  | ER_NO_REFERENCED_ROW
  | ER_ROW_IS_REFERENCED
  | ER_CANNOT_ADD_FOREIGN

text \<open>
  A value assigned to a \<^verbatim>\<open>NOT NULL\<close> column, and to a column that takes \<^verbatim>\<open>NULL\<close>.
  The server runs in strict SQL mode (the default of MySQL since 5.7): a \<^verbatim>\<open>NULL\<close> for a
  \<^verbatim>\<open>NOT NULL\<close> column and a value that does not fit the column fail the statement.
\<close>

definition not_null :: "(sqlval \<Rightarrow> 'a option) \<Rightarrow> sqlval \<Rightarrow> sql_error + 'a" where
  "not_null conv v =
     (if v = SqlNull then Inl ER_BAD_NULL_ERROR
      else case conv v of None \<Rightarrow> Inl ER_WRONG_VALUE | Some x \<Rightarrow> Inr x)"

definition nullable :: "(sqlval \<Rightarrow> 'a option) \<Rightarrow> sqlval \<Rightarrow> sql_error + 'a option" where
  "nullable conv v =
     (if v = SqlNull then Inr None
      else case conv v of None \<Rightarrow> Inl ER_WRONG_VALUE | Some x \<Rightarrow> Inr (Some x))"

definition and_then :: "sql_error + 'a \<Rightarrow> ('a \<Rightarrow> sql_error + 'b) \<Rightarrow> sql_error + 'b" where
  "and_then r f = (case r of Inl err \<Rightarrow> Inl err | Inr x \<Rightarrow> f x)"

text \<open>
  The rows, as \<^verbatim>\<open>initDB\<close> declares the tables:
  \<^verbatim>\<open>etapas (id INT AUTO_INCREMENT PRIMARY KEY, nombre VARCHAR(100) NOT NULL,
  color VARCHAR(7) NOT NULL DEFAULT '#4f46e5')\<close> and
  \<^verbatim>\<open>hitos (id INT AUTO_INCREMENT PRIMARY KEY, item INT NOT NULL, etapa_id INT NOT NULL,
  fecha_inicio DATE NOT NULL, ubicacion VARCHAR(255) NOT NULL, fecha_finalizacion DATE,
  comentarios TEXT, ilustracion VARCHAR(255), FOREIGN KEY (etapa_id) REFERENCES etapas(id))\<close>.
  The two \<^verbatim>\<open>id\<close> columns are \<^verbatim>\<open>eid\<close> and \<^verbatim>\<open>hid\<close>.
\<close>

record etapa =
  eid :: int
  nombre :: string
  color :: string

record hito =
  hid :: int
  item :: int
  etapa_id :: int
  fecha_inicio :: string
  ubicacion :: string
  fecha_finalizacion :: "string option"
  comentarios :: "string option"
  ilustracion :: "string option"

text \<open>
  The database and the pool. A table that was never created does not exist; a table
  keeps its rows in the order of their insertion and the next \<^verbatim>\<open>AUTO_INCREMENT\<close>
  value. \<^verbatim>\<open>faults\<close> says, for each coming round trip to the server, whether the
  server rejects it for a reason that is not in the tables (no connection can be had,
  the user lacks the privilege for the statement, a lock wait times out); once the
  list is empty no such failure is ahead.
  \<^verbatim>\<open>leased\<close> counts the connections taken from the pool and not released.
\<close>

record db =
  etapas_table :: bool
  etapas :: "etapa list"
  etapas_auto :: int
  hitos_table :: bool
  hitos :: "hito list"
  hitos_auto :: int
  faults :: "bool list"
  leased :: nat

type_synonym 'a query = "db \<Rightarrow> (sql_error + 'a) \<times> db"

subsection \<open>The statements\<close>

text \<open>\<^verbatim>\<open>CREATE TABLE IF NOT EXISTS etapas (...)\<close>\<close>

definition CREATE_etapas :: "unit query" where
  "CREATE_etapas d =
     (Inr (), if etapas_table d then d
              else d\<lparr>etapas_table := True, etapas := [], etapas_auto := 1\<rparr>)"

text \<open>\<^verbatim>\<open>CREATE TABLE IF NOT EXISTS hitos (...)\<close>; the foreign key needs the table \<^verbatim>\<open>etapas\<close>.\<close>

definition CREATE_hitos :: "unit query" where
  "CREATE_hitos d =
     (if hitos_table d then (Inr (), d)
      else if \<not> etapas_table d then (Inl ER_CANNOT_ADD_FOREIGN, d)
      else (Inr (), d\<lparr>hitos_table := True, hitos := [], hitos_auto := 1\<rparr>))"

text \<open>\<^verbatim>\<open>SELECT * FROM etapas\<close>\<close>

definition SELECT_etapas :: "etapa list query" where
  "SELECT_etapas d =
     (if \<not> etapas_table d then (Inl ER_NO_SUCH_TABLE, d) else (Inr (etapas d), d))"

text \<open>\<^verbatim>\<open>SELECT * FROM etapas ORDER BY id\<close>\<close>

definition SELECT_etapas_ORDER_BY_id :: "etapa list query" where
  "SELECT_etapas_ORDER_BY_id d =
     (if \<not> etapas_table d then (Inl ER_NO_SUCH_TABLE, d)
      else (Inr (sort_key eid (etapas d)), d))"

text \<open>One row of an \<^verbatim>\<open>INSERT INTO etapas (nombre, color)\<close>, with the next \<^verbatim>\<open>id\<close>.\<close>

definition add_etapa :: "string \<Rightarrow> string \<Rightarrow> db \<Rightarrow> db" where
  "add_etapa n c d =
     d\<lparr>etapas := etapas d @ [\<lparr>eid = etapas_auto d, nombre = n, color = c\<rparr>],
       etapas_auto := etapas_auto d + 1\<rparr>"

text \<open>
  The seed of \<^verbatim>\<open>initDB\<close>: one \<^verbatim>\<open>INSERT\<close> of four rows. The letter o with an acute
  accent is two bytes in UTF-8.
\<close>

definition INSERT_seed :: "unit query" where
  "INSERT_seed d =
     (if \<not> etapas_table d then (Inl ER_NO_SUCH_TABLE, d)
      else (Inr (),
        add_etapa ''En espera'' ''#d97706''
          (add_etapa ''Finalizado'' ''#b91c1c''
            (add_etapa (''Ejecuci'' @ [CHR 0xC3, CHR 0xB3] @ ''n'') ''#059669''
              (add_etapa (''Planificaci'' @ [CHR 0xC3, CHR 0xB3] @ ''n'') ''#4f46e5'' d)))))"

text \<open>
  \<^verbatim>\<open>INSERT INTO etapas (nombre, color) VALUES (?, ?)\<close>. The statement names the
  column \<^verbatim>\<open>color\<close>, so the \<^verbatim>\<open>DEFAULT\<close> of the column is never used: a \<^verbatim>\<open>NULL\<close> there
  is refused. The result is \<^verbatim>\<open>insertId\<close>.
\<close>

definition INSERT_etapas :: "coercion \<Rightarrow> jsval \<Rightarrow> jsval \<Rightarrow> int query" where
  "INSERT_etapas cv nombre_p color_p d =
     (if \<not> etapas_table d then (Inl ER_NO_SUCH_TABLE, d)
      else case and_then (not_null (text_of cv 100) (escape nombre_p)) (\<lambda>n.
                and_then (not_null (text_of cv 7) (escape color_p)) (\<lambda>c. Inr (n, c))) of
             Inl err \<Rightarrow> (Inl err, d)
           | Inr (n, c) \<Rightarrow> (Inr (etapas_auto d), add_etapa n c d))"

text \<open>\<^verbatim>\<open>SELECT COUNT(*) as count FROM hitos WHERE etapa_id = ?\<close>\<close>

definition SELECT_COUNT_hitos :: "int \<Rightarrow> nat query" where
  "SELECT_COUNT_hitos i d =
     (if \<not> hitos_table d then (Inl ER_NO_SUCH_TABLE, d)
      else (Inr (length (filter (\<lambda>h. etapa_id h = i) (hitos d))), d))"

text \<open>
  \<^verbatim>\<open>DELETE FROM etapas WHERE id = ?\<close>. The foreign key of \<^verbatim>\<open>hitos\<close> restricts the
  deletion of a row that is referenced.
\<close>

definition DELETE_etapas :: "int \<Rightarrow> unit query" where
  "DELETE_etapas i d =
     (if \<not> etapas_table d then (Inl ER_NO_SUCH_TABLE, d)
      else if list_ex (\<lambda>e. eid e = i) (etapas d) \<and> hitos_table d
              \<and> list_ex (\<lambda>h. etapa_id h = i) (hitos d)
      then (Inl ER_ROW_IS_REFERENCED, d)
      else (Inr (), d\<lparr>etapas := filter (\<lambda>e. eid e \<noteq> i) (etapas d)\<rparr>))"


text \<open>
  The six columns that both the \<^verbatim>\<open>INSERT\<close> and the \<^verbatim>\<open>UPDATE\<close> of \<^verbatim>\<open>hitos\<close> write,
  converted in the order of the statement; \<^verbatim>\<open>etapa_id\<close> must be the \<^verbatim>\<open>id\<close> of a row
  of \<^verbatim>\<open>etapas\<close>.
\<close>

type_synonym hito_columns = "int \<times> string \<times> string \<times> string option \<times> string option \<times> string option"

definition hito_columns ::
  "coercion \<Rightarrow> db \<Rightarrow> jsval \<Rightarrow> jsval \<Rightarrow> jsval \<Rightarrow> jsval \<Rightarrow> jsval \<Rightarrow> jsval \<Rightarrow> sql_error + hito_columns" where
  "hito_columns cv d etapa_id_p fecha_inicio_p ubicacion_p fecha_finalizacion_p comentarios_p ilustracion_p =
     and_then (not_null (int_of cv) (escape etapa_id_p)) (\<lambda>e.
     and_then (not_null (date_of cv) (escape fecha_inicio_p)) (\<lambda>fi.
     and_then (not_null (text_of cv 255) (escape ubicacion_p)) (\<lambda>u.
     and_then (nullable (date_of cv) (escape fecha_finalizacion_p)) (\<lambda>ff.
     and_then (nullable (text_of cv 65535) (escape comentarios_p)) (\<lambda>c.
     and_then (nullable (text_of cv 255) (escape ilustracion_p)) (\<lambda>il.
       if list_ex (\<lambda>row. eid row = e) (etapas d) then Inr (e, fi, u, ff, c, il)
       else Inl ER_NO_REFERENCED_ROW))))))"

definition set_columns :: "hito_columns \<Rightarrow> hito \<Rightarrow> hito" where
  "set_columns cols h =
     (case cols of (e, fi, u, ff, c, il) \<Rightarrow>
        h\<lparr>etapa_id := e, fecha_inicio := fi, ubicacion := u, fecha_finalizacion := ff,
          comentarios := c, ilustracion := il\<rparr>)"

text \<open>
  \<^verbatim>\<open>INSERT INTO hitos (item, etapa_id, fecha_inicio, ubicacion, fecha_finalizacion,
  comentarios, ilustracion) VALUES (?, ?, ?, ?, ?, ?, ?)\<close>; the result is \<^verbatim>\<open>insertId\<close>.
\<close>

definition INSERT_hitos ::
  "coercion \<Rightarrow> jsval \<Rightarrow> jsval \<Rightarrow> jsval \<Rightarrow> jsval \<Rightarrow> jsval \<Rightarrow> jsval \<Rightarrow> jsval \<Rightarrow> int query" where
  "INSERT_hitos cv item_p etapa_id_p fecha_inicio_p ubicacion_p fecha_finalizacion_p comentarios_p ilustracion_p d =
     (if \<not> hitos_table d \<or> \<not> etapas_table d then (Inl ER_NO_SUCH_TABLE, d)
      else case and_then (not_null (int_of cv) (escape item_p)) (\<lambda>it.
                and_then (hito_columns cv d etapa_id_p fecha_inicio_p ubicacion_p
                            fecha_finalizacion_p comentarios_p ilustracion_p) (\<lambda>cols.
                  Inr (it, cols))) of
             Inl err \<Rightarrow> (Inl err, d)
           | Inr (it, cols) \<Rightarrow>
               (Inr (hitos_auto d),
                d\<lparr>hitos := hitos d @ [set_columns cols
                     \<lparr>hid = hitos_auto d, item = it, etapa_id = 0, fecha_inicio = [],
                      ubicacion = [], fecha_finalizacion = None, comentarios = None,
                      ilustracion = None\<rparr>],
                  hitos_auto := hitos_auto d + 1\<rparr>))"

text \<open>
  \<^verbatim>\<open>UPDATE hitos SET etapa_id = ?, fecha_inicio = ?, ubicacion = ?,
  fecha_finalizacion = ?, comentarios = ?, ilustracion = ? WHERE id = ?\<close>. The server
  converts and checks the values for the rows it updates: with no row of that
  \<^verbatim>\<open>id\<close> the statement succeeds and changes nothing.
\<close>

definition UPDATE_hitos ::
  "coercion \<Rightarrow> jsval \<Rightarrow> jsval \<Rightarrow> jsval \<Rightarrow> jsval \<Rightarrow> jsval \<Rightarrow> jsval \<Rightarrow> int \<Rightarrow> unit query" where
  "UPDATE_hitos cv etapa_id_p fecha_inicio_p ubicacion_p fecha_finalizacion_p comentarios_p ilustracion_p i d =
     (if \<not> hitos_table d \<or> \<not> etapas_table d then (Inl ER_NO_SUCH_TABLE, d)
      else if \<not> list_ex (\<lambda>h. hid h = i) (hitos d) then (Inr (), d)
      else case hito_columns cv d etapa_id_p fecha_inicio_p ubicacion_p
                  fecha_finalizacion_p comentarios_p ilustracion_p of
             Inl err \<Rightarrow> (Inl err, d)
           | Inr cols \<Rightarrow>
               (Inr (), d\<lparr>hitos := map (\<lambda>h. if hid h = i then set_columns cols h else h)
                                        (hitos d)\<rparr>))"

text \<open>\<^verbatim>\<open>DELETE FROM hitos WHERE id = ?\<close>\<close>

definition DELETE_hitos :: "int \<Rightarrow> unit query" where
  "DELETE_hitos i d =
     (if \<not> hitos_table d then (Inl ER_NO_SUCH_TABLE, d)
      else (Inr (), d\<lparr>hitos := filter (\<lambda>h. hid h \<noteq> i) (hitos d)\<rparr>))"

subsection \<open>The pool\<close>

text \<open>
  One round trip: the next entry of \<^verbatim>\<open>faults\<close> is used up; when it says so the
  statement is not executed and the promise is rejected (\<^verbatim>\<open>ER_REJECTED\<close> stands for
  every such error); the connection itself stays as it is.
\<close>

definition round_trip :: "'a query \<Rightarrow> 'a query" where
  "round_trip statement d =
     (case faults d of
        [] \<Rightarrow> statement d
      | fault # rest \<Rightarrow>
          if fault then (Inl ER_REJECTED, d\<lparr>faults := rest\<rparr>)
          else statement (d\<lparr>faults := rest\<rparr>))"

text \<open>
  \<^verbatim>\<open>pool.query\<close> takes a connection, runs the statement and gives the connection back
  whether the statement failed or not: \<^verbatim>\<open>leased\<close> is as before.
\<close>

definition pool_query :: "'a query \<Rightarrow> 'a query" where
  "pool_query statement d = round_trip statement d"

text \<open>
  \<^verbatim>\<open>pool.getConnection()\<close>, \<^verbatim>\<open>connection.query\<close> and \<^verbatim>\<open>connection.release()\<close>. The
  pool holds ten connections (\<^verbatim>\<open>connectionLimit\<close>); \<^verbatim>\<open>initDB\<close> is the only caller that
  leases one, once, so the limit is never met.
\<close>

definition getConnection :: "unit query" where
  "getConnection d = round_trip (\<lambda>d'. (Inr (), d'\<lparr>leased := leased d' + 1\<rparr>)) d"

definition connection_query :: "'a query \<Rightarrow> 'a query" where
  "connection_query statement d = round_trip statement d"

definition release :: "db \<Rightarrow> db" where
  "release d = d\<lparr>leased := leased d - 1\<rparr>"

subsection \<open>\<^verbatim>\<open>initDB\<close>\<close>

datatype console = Base_de_datos_inicializada | Error_al_inicializar sql_error

text \<open>
  The body of the \<^verbatim>\<open>try\<close> block, statement by statement; every rejected promise goes
  to the \<^verbatim>\<open>catch\<close> block, which writes the error to the console and does nothing
  else. \<^verbatim>\<open>connection.release()\<close> is the last statement but one of the \<^verbatim>\<open>try\<close> block.
\<close>

definition initDB_seed :: "etapa list \<Rightarrow> db \<Rightarrow> console \<times> db" where
  "initDB_seed rows d =
     (if length rows = 0 then
        (case connection_query INSERT_seed d of
           (Inl err, d') \<Rightarrow> (Error_al_inicializar err, d')
         | (Inr u, d') \<Rightarrow> (Base_de_datos_inicializada, release d'))
      else (Base_de_datos_inicializada, release d))"

definition initDB :: "db \<Rightarrow> console \<times> db" where
  "initDB d =
     (case getConnection d of
        (Inl err, d0) \<Rightarrow> (Error_al_inicializar err, d0)
      | (Inr connection, d0) \<Rightarrow>
     (case connection_query CREATE_etapas d0 of
        (Inl err, d1) \<Rightarrow> (Error_al_inicializar err, d1)
      | (Inr u1, d1) \<Rightarrow>
     (case connection_query CREATE_hitos d1 of
        (Inl err, d2) \<Rightarrow> (Error_al_inicializar err, d2)
      | (Inr u2, d2) \<Rightarrow>
     (case connection_query SELECT_etapas d2 of
        (Inl err, d3) \<Rightarrow> (Error_al_inicializar err, d3)
      | (Inr rows, d3) \<Rightarrow> initDB_seed rows d3))))"

subsection \<open>The routes\<close>

datatype reply =
    Json_error message
  | Json_success
  | Json_id_success int
  | Json_etapa int jsval jsval
  | Json_etapas "etapa list"
  | Json_hitos "(hito \<times> string \<times> string) list"

type_synonym response = "nat \<times> reply"

text \<open>\<^verbatim>\<open>app.get('/api/etapas', ...)\<close>\<close>

definition get_etapas :: "db \<Rightarrow> response \<times> db" where
  "get_etapas d =
     (case pool_query SELECT_etapas_ORDER_BY_id d of
        (Inr rows, d') \<Rightarrow> ((200, Json_etapas rows), d')
      | (Inl err, d') \<Rightarrow> ((500, Json_error Error_al_obtener_etapas), d'))"

text \<open>
  \<^verbatim>\<open>app.post('/api/etapas', ...)\<close>: the response repeats \<^verbatim>\<open>nombre\<close> and \<^verbatim>\<open>color\<close> of
  the request body, not the stored row.
\<close>

definition post_etapas :: "coercion \<Rightarrow> body \<Rightarrow> db \<Rightarrow> response \<times> db" where
  "post_etapas cv req_body d =
     (let nombre_v = field_of req_body ''nombre''; color_v = field_of req_body ''color''
      in case pool_query (INSERT_etapas cv nombre_v color_v) d of
           (Inr insertId, d') \<Rightarrow> ((201, Json_etapa insertId nombre_v color_v), d')
         | (Inl err, d') \<Rightarrow> ((500, Json_error Error_al_crear_etapa), d'))"

text \<open>
  \<^verbatim>\<open>app.delete('/api/etapas/:id', ...)\<close>. The path parameter is text; \<^verbatim>\<open>i\<close> is the
  whole number it denotes.
\<close>

definition delete_etapas :: "int \<Rightarrow> db \<Rightarrow> response \<times> db" where
  "delete_etapas i d =
     (case pool_query (SELECT_COUNT_hitos i) d of
        (Inl err, d1) \<Rightarrow> ((500, Json_error Error_al_eliminar_etapa), d1)
      | (Inr count, d1) \<Rightarrow>
          if count > 0 then ((400, Json_error Etapa_utilizada_por_hitos), d1)
          else (case pool_query (DELETE_etapas i) d1 of
                  (Inl err, d2) \<Rightarrow> ((500, Json_error Error_al_eliminar_etapa), d2)
                | (Inr u, d2) \<Rightarrow> ((200, Json_success), d2)))"



text \<open>\<^verbatim>\<open>app.post('/api/hitos', ...)\<close>\<close>

definition post_hitos :: "coercion \<Rightarrow> body \<Rightarrow> db \<Rightarrow> response \<times> db" where
  "post_hitos cv req_body d =
     (case pool_query
             (INSERT_hitos cv (field_of req_body ''item'') (field_of req_body ''etapa_id'')
                (field_of req_body ''fecha_inicio'') (field_of req_body ''ubicacion'')
                (or_null (field_of req_body ''fecha_finalizacion''))
                (field_of req_body ''comentarios'') (field_of req_body ''ilustracion'')) d of
        (Inr insertId, d') \<Rightarrow> ((201, Json_id_success insertId), d')
      | (Inl err, d') \<Rightarrow> ((500, Json_error Error_al_crear_hito), d'))"

text \<open>\<^verbatim>\<open>app.put('/api/hitos/:id', ...)\<close>\<close>

definition put_hitos :: "coercion \<Rightarrow> int \<Rightarrow> body \<Rightarrow> db \<Rightarrow> response \<times> db" where
  "put_hitos cv i req_body d =
     (case pool_query
             (UPDATE_hitos cv (field_of req_body ''etapa_id'')
                (field_of req_body ''fecha_inicio'') (field_of req_body ''ubicacion'')
                (or_null (field_of req_body ''fecha_finalizacion''))
                (field_of req_body ''comentarios'') (field_of req_body ''ilustracion'') i) d of
        (Inr u, d') \<Rightarrow> ((200, Json_success), d')
      | (Inl err, d') \<Rightarrow> ((500, Json_error Error_al_actualizar_hito), d'))"

text \<open>\<^verbatim>\<open>app.delete('/api/hitos/:id', ...)\<close>\<close>

definition delete_hitos :: "int \<Rightarrow> db \<Rightarrow> response \<times> db" where
  "delete_hitos i d =
     (case pool_query (DELETE_hitos i) d of
        (Inr u, d') \<Rightarrow> ((200, Json_success), d')
      | (Inl err, d') \<Rightarrow> ((500, Json_error Error_al_eliminar_hito), d'))"

subsection \<open>Properties of a database and of a row\<close>

text \<open>
  The foreign key of \<^verbatim>\<open>hitos\<close>, as the server keeps it: every row of \<^verbatim>\<open>hitos\<close>
  names the \<^verbatim>\<open>id\<close> of a row of \<^verbatim>\<open>etapas\<close>.
\<close>

definition foreign_key :: "db \<Rightarrow> bool" where
  "foreign_key d = list_all (\<lambda>h. list_ex (\<lambda>e. eid e = etapa_id h) (etapas d)) (hitos d)"


subsection \<open>Concrete requests and databases\<close>

text \<open>Requests used in the runs below: a PNG of 2 MiB sent as the code expects it, the
  same file sent under the field name of the specification, a PNG of exactly 5 MiB,
  and a file whose extension and content type only contain the token \<^verbatim>\<open>png\<close>.\<close>

definition photo_png :: upload_file where
  "photo_png = \<lparr>fieldname = ''imagen'', originalname = ''photo.png'',
                 mimetype = ''image/png'', file_size = 2097152\<rparr>"

definition photo_image :: upload_file where
  "photo_image = \<lparr>fieldname = ''image'', originalname = ''photo.png'',
                   mimetype = ''image/png'', file_size = 2097152\<rparr>"

definition photo_5mib :: upload_file where
  "photo_5mib = \<lparr>fieldname = ''imagen'', originalname = ''photo.png'',
                  mimetype = ''image/png'', file_size = 5242880\<rparr>"

definition photo_apngx :: upload_file where
  "photo_apngx = \<lparr>fieldname = ''imagen'', originalname = ''photo.apngx'',
                   mimetype = ''image/apngx'', file_size = 2097152\<rparr>"

text \<open>A database with two stages and one milestone of the first stage; the pool
  is idle and no failure of the connection is ahead.\<close>

definition hito_madrid :: hito where
  "hito_madrid = \<lparr>hid = 1, item = 10, etapa_id = 1, fecha_inicio = ''2024-01-01'',
                   ubicacion = ''Madrid'', fecha_finalizacion = None,
                   comentarios = Some ''nota'', ilustracion = None\<rparr>"

definition db0 :: db where
  "db0 =
     \<lparr>etapas_table = True,
      etapas = [\<lparr>eid = 1, nombre = ''Planificado'', color = ''#4f46e5''\<rparr>,
                \<lparr>eid = 2, nombre = ''Finalizado'', color = ''#b91c1c''\<rparr>],
      etapas_auto = 3,
      hitos_table = True,
      hitos = [hito_madrid],
      hitos_auto = 2,
      faults = [],
      leased = 0\<rparr>"


definition body_move :: body where
  "body_move = map_of
     [(''ubicacion'', JStr ''Sevilla''), (''fecha_finalizacion'', JStr ''2024-04-01'')]"

definition body_etapa :: body where
  "body_etapa = map_of [(''nombre'', JStr ''Review''), (''color'', JStr ''#123456'')]"

definition body_no_color :: body where
  "body_no_color = map_of [(''nombre'', JStr ''Review'')]"

definition body_no_nombre :: body where
  "body_no_nombre = map_of [(''color'', JStr ''#123456'')]"




section \<open>The upload filter\<close>

lemma filetypes_test_sublist:
  "filetypes_test s = (\<exists>t \<in> set [''jpeg'', ''jpg'', ''png'', ''gif'']. sublist t s)"
  by (induction s) (auto simp: sublist_Cons_right)

lemma extname_Nil: "extname [] = []"
  by (simp add: extname_def)

lemma extname_photo_png: "extname ''photo.png'' = ''.png''"
  by code_simp

lemma extname_photo_apngx: "extname ''photo.apngx'' = ''.apngx''"
  by code_simp

lemma toLowerCase_png: "toLowerCase ''.png'' = ''.png''"
  by code_simp

lemma toLowerCase_apngx: "toLowerCase ''.apngx'' = ''.apngx''"
  by code_simp

lemma string_of_nat_example: "string_of_nat 1700000000123 = ''1700000000123''"
  by (simp add: string_of_nat.simps digit_char_def)

lemma fileFilter_cases:
  "fileFilter f = Inr True \<or> fileFilter f = Inl Solo_se_permiten_imagenes"
  by (simp add: fileFilter_def Let_def)

lemma fileFilter_iff:
  "(fileFilter f = Inr True) =
   (filetypes_test (mimetype f) \<and> filetypes_test (toLowerCase (extname (originalname f))))"
  by (simp add: fileFilter_def Let_def)

lemma fileFilter_photo_png: "fileFilter photo_png = Inr True"
  by (simp add: fileFilter_iff photo_png_def extname_photo_png toLowerCase_png)

lemma fileFilter_photo_image: "fileFilter photo_image = Inr True"
  by (simp add: fileFilter_iff photo_image_def extname_photo_png toLowerCase_png)

lemma single_one:
  "fieldname f = ''imagen'' \<Longrightarrow> originalname f \<noteq> [] \<Longrightarrow>
   single now 1 [f] None =
     (case fileFilter f of Inl err \<Rightarrow> Inl err
      | Inr include \<Rightarrow> if \<not> include then Inr None
                       else if file_size f \<ge> fileSize then Inl LIMIT_FILE_SIZE
                       else Inr (Some (filename now f)))"
  by (simp split: sum.splits)

lemma single_no_names:
  "list_all (\<lambda>f. originalname f = []) files \<Longrightarrow> single now left files acc = Inr acc"
  by (induction files arbitrary: left acc) simp_all

lemma fileFilter_photo_5mib: "fileFilter photo_5mib = Inr True"
  by (simp add: fileFilter_iff photo_5mib_def extname_photo_png toLowerCase_png)

text \<open>
  \<^bold>\<open>C5\<close>, as the claim states it, fails at the bound: a PNG of exactly 5 MiB
  (5242880 bytes) under the field \<^verbatim>\<open>imagen\<close>, with a content type and an extension
  that pass the filter, is refused with \<^verbatim>\<open>LIMIT_FILE_SIZE\<close> and the request is
  answered 500.
\<close>

theorem upload_limit_counterexample:
  "file_size photo_5mib = 5 * 1024 * 1024
   \<and> fieldname photo_5mib = ''imagen''
   \<and> fileFilter photo_5mib = Inr True
   \<and> single 1700000000123 1 [photo_5mib] None = Inl LIMIT_FILE_SIZE
   \<and> post_upload ''http'' ''localhost:3000'' 1700000000123 [photo_5mib] = (500, Error_page)"
proof -
  have "single 1700000000123 1 [photo_5mib] None = Inl LIMIT_FILE_SIZE"
    using fileFilter_photo_5mib by (simp add: fileSize_def) (simp add: photo_5mib_def)
  then show ?thesis
    using fileFilter_photo_5mib by (simp add: post_upload_def) (simp add: photo_5mib_def)
qed

text \<open>
  \<^bold>\<open>C5\<close>, amended. The file of a request with one file part is stored (under the
  generated name) exactly when the part is under the field \<^verbatim>\<open>imagen\<close>, its size is
  less than 5 MiB (at most 5242879 bytes), its declared content type matches one of
  \<^verbatim>\<open>jpeg\<close>, \<^verbatim>\<open>jpg\<close>, \<^verbatim>\<open>png\<close>, \<^verbatim>\<open>gif\<close>, and its lower-cased extension matches one of
  them; the two tests are separate and both must hold. "Matches" is the match of the
  regular expression of the code: the token occurs in the text.
\<close>

theorem upload_accepts_iff:
  "(single now 1 [f] None = Inr (Some (filename now f))) =
   (fieldname f = ''imagen''
    \<and> file_size f < 5 * 1024 * 1024
    \<and> (\<exists>t \<in> set [''jpeg'', ''jpg'', ''png'', ''gif'']. sublist t (mimetype f))
    \<and> (\<exists>t \<in> set [''jpeg'', ''jpg'', ''png'', ''gif''].
          sublist t (toLowerCase (extname (originalname f)))))"
proof (cases "originalname f = []")
  case True
  have "\<not> filetypes_test (toLowerCase (extname (originalname f)))"
    using True by (simp add: extname_Nil toLowerCase_def)
  moreover have "single now 1 [f] None = Inr None"
    using True by simp
  ultimately show ?thesis
    unfolding filetypes_test_sublist by simp
next
  case False
  show ?thesis
  proof (cases "fieldname f = ''imagen''")
    case True
    have accepted: "(single now 1 [f] None = Inr (Some (filename now f))) =
        (fileFilter f = Inr True \<and> file_size f < fileSize)"
      unfolding single_one [OF True False] using fileFilter_cases [of f] by auto
    show ?thesis
      unfolding accepted fileFilter_iff filetypes_test_sublist fileSize_def
      using True by auto
  next
    case other: False
    then have "single now 1 [f] None = Inl LIMIT_UNEXPECTED_FILE"
      using False by simp
    then show ?thesis
      using other by simp
  qed
qed

theorem upload_accepts_iff_witness:
  "single 1700000000123 1 [photo_png] None = Inr (Some ''1700000000123.png'')
   \<and> single 1700000000123 1 [photo_5mib] None \<noteq> Inr (Some (filename 1700000000123 photo_5mib))
   \<and> single 1700000000123 1 [photo_image] None \<noteq> Inr (Some (filename 1700000000123 photo_image))"
proof -
  have field: "fieldname photo_png = ''imagen''"
    by (simp add: photo_png_def)
  have size_ok: "file_size photo_png < 5 * 1024 * 1024"
    by (simp add: photo_png_def)
  have "sublist ''png'' ''image/png''"
    by code_simp
  then have mime: "\<exists>t \<in> set [''jpeg'', ''jpg'', ''png'', ''gif'']. sublist t (mimetype photo_png)"
    by (simp add: photo_png_def)
  have "sublist ''png'' ''.png''"
    by code_simp
  then have ext: "\<exists>t \<in> set [''jpeg'', ''jpg'', ''png'', ''gif''].
      sublist t (toLowerCase (extname (originalname photo_png)))"
    by (simp add: photo_png_def extname_photo_png toLowerCase_png)
  have "single 1700000000123 1 [photo_png] None = Inr (Some (filename 1700000000123 photo_png))"
    using upload_accepts_iff [of 1700000000123 photo_png] field size_ok mime ext by blast
  moreover have "filename 1700000000123 photo_png = ''1700000000123.png''"
    by (simp add: filename_def photo_png_def extname_photo_png string_of_nat_example)
  moreover have "single 1700000000123 1 [photo_5mib] None
      \<noteq> Inr (Some (filename 1700000000123 photo_5mib))"
    using upload_accepts_iff [of 1700000000123 photo_5mib] by (simp add: photo_5mib_def)
  moreover have "single 1700000000123 1 [photo_image] None
      \<noteq> Inr (Some (filename 1700000000123 photo_image))"
    using upload_accepts_iff [of 1700000000123 photo_image] by (simp add: photo_image_def)
  ultimately show ?thesis
    by simp
qed

text \<open>
  \<^bold>\<open>C9.\<close> The expression of the filter has no anchors: the file \<^verbatim>\<open>photo.apngx\<close> with the
  declared type \<^verbatim>\<open>image/apngx\<close> passes the filter, though its extension \<^verbatim>\<open>.apngx\<close> is
  none of \<^verbatim>\<open>.jpeg\<close>, \<^verbatim>\<open>.jpg\<close>, \<^verbatim>\<open>.png\<close>, \<^verbatim>\<open>.gif\<close>.
\<close>

theorem fileFilter_unanchored:
  "fileFilter photo_apngx = Inr True
   \<and> extname (originalname photo_apngx) = ''.apngx''
   \<and> ''.apngx'' \<notin> {''.jpeg'', ''.jpg'', ''.png'', ''.gif''}
   \<and> mimetype photo_apngx \<notin> {''image/jpeg'', ''image/jpg'', ''image/png'', ''image/gif''}"
proof -
  have "filetypes_test ''image/apngx''"
    by code_simp
  moreover have "filetypes_test ''.apngx''"
    by code_simp
  ultimately have "fileFilter photo_apngx = Inr True"
    by (simp add: fileFilter_iff photo_apngx_def extname_photo_apngx toLowerCase_apngx)
  then show ?thesis
    by (simp add: photo_apngx_def extname_photo_apngx)
qed

section \<open>The upload route\<close>

text \<open>
  \<^bold>\<open>C6\<close>, as the claim states it, fails: a request whose only file part is a valid PNG
  under the field name \<^verbatim>\<open>image\<close> has no file under \<^verbatim>\<open>imagen\<close>, the field the code
  reads, and is answered 500, neither 400 nor 200.
\<close>

theorem upload_other_field_counterexample:
  "post_upload ''http'' ''localhost:3000'' 1700000000123 [photo_image] = (500, Error_page)
   \<and> fileFilter photo_image = Inr True
   \<and> file_size photo_image < fileSize
   \<and> fieldname photo_image \<noteq> ''imagen''"
  by (simp add: post_upload_def fileFilter_photo_image) (simp add: photo_image_def fileSize_def)

text \<open>
  \<^bold>\<open>C6\<close>, amended. The route answers 400 with the message "no image was sent" when
  the request has no file part with a file name. For a request with one file part: 200
  with \<^verbatim>\<open>{url}\<close>, the URL being protocol, \<^verbatim>\<open>://\<close>, host, \<^verbatim>\<open>/uploads/\<close>, the time stamp
  in decimal and the extension of the original name, when the part is under the field
  \<^verbatim>\<open>imagen\<close>, passes the filter and has less than 5 MiB; and 500 otherwise (another
  field name, a refused type, or 5 MiB and more).
\<close>

theorem upload_responses:
  "(list_all (\<lambda>f. originalname f = []) files \<longrightarrow>
      post_upload protocol host now files = (400, Upload_error No_se_ha_enviado_ninguna_imagen))
   \<and> (originalname f \<noteq> [] \<longrightarrow>
      post_upload protocol host now [f] =
        (if fieldname f = ''imagen'' \<and> fileFilter f = Inr True \<and> file_size f < 5 * 1024 * 1024
         then (200, Upload_url (protocol @ ''://'' @ host @ ''/uploads/''
                                 @ string_of_nat now @ extname (originalname f)))
         else (500, Error_page)))"
proof (intro conjI impI)
  assume "list_all (\<lambda>f. originalname f = []) files"
  then show "post_upload protocol host now files
      = (400, Upload_error No_se_ha_enviado_ninguna_imagen)"
    by (simp add: post_upload_def single_no_names)
next
  assume named: "originalname f \<noteq> []"
  show "post_upload protocol host now [f] =
        (if fieldname f = ''imagen'' \<and> fileFilter f = Inr True \<and> file_size f < 5 * 1024 * 1024
         then (200, Upload_url (protocol @ ''://'' @ host @ ''/uploads/''
                                 @ string_of_nat now @ extname (originalname f)))
         else (500, Error_page))"
  proof (cases "fieldname f = ''imagen''")
    case True
    show ?thesis
      unfolding post_upload_def single_one [OF True named]
      using True fileFilter_cases [of f]
      by (auto simp: fileSize_def filename_def)
  next
    case False
    then show ?thesis
      using named by (simp add: post_upload_def)
  qed
qed

theorem upload_responses_witness:
  "list_all (\<lambda>f. originalname f = []) []
   \<and> post_upload ''http'' ''localhost:3000'' 1700000000123 []
       = (400, Upload_error No_se_ha_enviado_ninguna_imagen)
   \<and> originalname photo_png \<noteq> []
   \<and> post_upload ''http'' ''localhost:3000'' 1700000000123 [photo_png]
       = (200, Upload_url ''http://localhost:3000/uploads/1700000000123.png'')
   \<and> originalname photo_apngx \<noteq> []
   \<and> post_upload ''http'' ''localhost:3000'' 1700000000123 [photo_apngx\<lparr>file_size := 6291456\<rparr>]
       = (500, Error_page)
   \<and> originalname photo_5mib \<noteq> []
   \<and> post_upload ''http'' ''localhost:3000'' 1700000000123 [photo_5mib] = (500, Error_page)"
proof -
  have a: "post_upload ''http'' ''localhost:3000'' 1700000000123 []
       = (400, Upload_error No_se_ha_enviado_ninguna_imagen)"
    using upload_responses [of "[]" "''http''" "''localhost:3000''" 1700000000123]
    by simp
  have named: "originalname photo_png \<noteq> []"
    by (simp add: photo_png_def)
  have b: "post_upload ''http'' ''localhost:3000'' 1700000000123 [photo_png]
       = (200, Upload_url ''http://localhost:3000/uploads/1700000000123.png'')"
    using upload_responses [of "[]" "''http''" "''localhost:3000''" 1700000000123 photo_png]
      named fileFilter_photo_png
    by (simp add: photo_png_def extname_photo_png string_of_nat_example)
  have named': "originalname (photo_apngx\<lparr>file_size := 6291456\<rparr>) \<noteq> []"
    by (simp add: photo_apngx_def)
  have c: "post_upload ''http'' ''localhost:3000'' 1700000000123 [photo_apngx\<lparr>file_size := 6291456\<rparr>]
       = (500, Error_page)"
    using upload_responses [of "[]" "''http''" "''localhost:3000''" 1700000000123
        "photo_apngx\<lparr>file_size := 6291456\<rparr>"] named'
    by simp
  have named5: "originalname photo_5mib \<noteq> []"
    by (simp add: photo_5mib_def)
  have e: "post_upload ''http'' ''localhost:3000'' 1700000000123 [photo_5mib] = (500, Error_page)"
    using upload_responses [of "[]" "''http''" "''localhost:3000''" 1700000000123 photo_5mib]
      named5
    by (simp add: photo_5mib_def)
  show ?thesis
    using a b c e named named' named5 by (simp add: photo_apngx_def)
qed

section \<open>The routes of the tables\<close>

text \<open>
  The theorems on the routes are about runs in which the tables exist and the
  connection does not fail (\<^verbatim>\<open>faults\<close> is empty), unless they say otherwise: with a
  failure every route answers 500 from its \<^verbatim>\<open>catch\<close> block.
\<close>

lemma pool_query_no_faults: "faults d = [] \<Longrightarrow> pool_query statement d = statement d"
  by (simp add: pool_query_def round_trip_def)

lemma faults_Nil_update: "faults d = [] \<Longrightarrow> d\<lparr>faults := []\<rparr> = d"
  by (cases d) simp

lemma pool_query_cases:
  assumes "pool_query statement d = (r, d')"
  shows "(r = Inl ER_REJECTED \<and> d' = d\<lparr>faults := tl (faults d)\<rparr>)
         \<or> statement (d\<lparr>faults := tl (faults d)\<rparr>) = (r, d')"
proof (cases "faults d")
  case Nil
  then show ?thesis
    using assms by (simp add: pool_query_def round_trip_def faults_Nil_update)
next
  case (Cons fault rest)
  then show ?thesis
    using assms by (auto simp: pool_query_def round_trip_def split: if_splits)
qed

lemma db0_ready: "etapas_table db0" "hitos_table db0" "faults db0 = []"
  by (simp_all add: db0_def)

lemma hito_madrid_stage: "etapa_id hito_madrid = 1"
  by (simp add: hito_madrid_def)

lemmas run_defs = pool_query_def round_trip_def and_then_def not_null_def nullable_def
  plain_def field_of_def or_null_def set_columns_def hito_columns_def

subsection \<open>Deleting a stage\<close>

lemma count_zero_no_reference:
  "length (filter (\<lambda>h. etapa_id h = i) hs) = 0 \<Longrightarrow> \<not> list_ex (\<lambda>h. etapa_id h = i) hs"
  by (induction hs) (auto split: if_splits)

text \<open>
  \<^bold>\<open>C1.\<close> For every stage \<^verbatim>\<open>id\<close>, the delete route of \<^verbatim>\<open>etapas\<close> first counts the rows
  of \<^verbatim>\<open>hitos\<close> that name the stage. With a count above 0 it answers 400 with the
  message that the stage is in use, and the database is as before: every row of
  \<^verbatim>\<open>etapas\<close> and of \<^verbatim>\<open>hitos\<close>. With the count 0 it deletes the stage (nothing else
  changes) and answers 200 with \<^verbatim>\<open>{success: true}\<close>.
\<close>

theorem delete_etapas_guard:
  assumes "etapas_table d" and "hitos_table d" and "faults d = []"
  shows "delete_etapas i d =
     (if length (filter (\<lambda>h. etapa_id h = i) (hitos d)) > 0
      then ((400, Json_error Etapa_utilizada_por_hitos), d)
      else ((200, Json_success), d\<lparr>etapas := filter (\<lambda>e. eid e \<noteq> i) (etapas d)\<rparr>))"
proof (cases "length (filter (\<lambda>h. etapa_id h = i) (hitos d)) > 0")
  case True
  then show ?thesis
    using assms by (simp add: delete_etapas_def pool_query_no_faults SELECT_COUNT_hitos_def)
next
  case False
  then have "\<not> list_ex (\<lambda>h. etapa_id h = i) (hitos d)"
    using count_zero_no_reference by simp
  then have "DELETE_etapas i d = (Inr (), d\<lparr>etapas := filter (\<lambda>e. eid e \<noteq> i) (etapas d)\<rparr>)"
    using assms by (simp add: DELETE_etapas_def)
  then show ?thesis
    using assms False
    by (simp add: delete_etapas_def pool_query_no_faults SELECT_COUNT_hitos_def)
qed

theorem delete_etapas_guard_witness:
  "etapas_table db0 \<and> hitos_table db0 \<and> faults db0 = []
   \<and> delete_etapas 1 db0 = ((400, Json_error Etapa_utilizada_por_hitos), db0)
   \<and> delete_etapas 2 db0 = ((200, Json_success),
        db0\<lparr>etapas := [\<lparr>eid = 1, nombre = ''Planificado'', color = ''#4f46e5''\<rparr>]\<rparr>)"
proof -
  have a: "delete_etapas 1 db0 = ((400, Json_error Etapa_utilizada_por_hitos), db0)"
    using delete_etapas_guard [OF db0_ready, of 1] by (simp add: db0_def hito_madrid_stage)
  have b: "delete_etapas 2 db0 = ((200, Json_success),
        db0\<lparr>etapas := [\<lparr>eid = 1, nombre = ''Planificado'', color = ''#4f46e5''\<rparr>]\<rparr>)"
    using delete_etapas_guard [OF db0_ready, of 2] by (simp add: db0_def hito_madrid_stage)
  show ?thesis using a b db0_ready by simp
qed

text \<open>The count comes first: when its round trip fails, the route answers 500 and no
  \<^verbatim>\<open>DELETE\<close> is sent.\<close>

lemma delete_etapas_count_rejected:
  "faults d = True # rest \<Longrightarrow>
   delete_etapas i d = ((500, Json_error Error_al_eliminar_etapa), d\<lparr>faults := rest\<rparr>)"
  by (simp add: delete_etapas_def pool_query_def round_trip_def)

subsection \<open>Updating a milestone\<close>

lemma hito_columns_Inr:
  assumes "hito_columns cv d a b c e f g = Inr cols"
  shows "\<exists>x1 x2 x3 x4 x5 x6. cols = (x1, x2, x3, x4, x5, x6)
     \<and> not_null (int_of cv) (escape a) = Inr x1
     \<and> not_null (date_of cv) (escape b) = Inr x2
     \<and> not_null (text_of cv 255) (escape c) = Inr x3
     \<and> nullable (date_of cv) (escape e) = Inr x4
     \<and> nullable (text_of cv 65535) (escape f) = Inr x5
     \<and> nullable (text_of cv 255) (escape g) = Inr x6
     \<and> list_ex (\<lambda>row. eid row = x1) (etapas d)"
  using assms unfolding hito_columns_def and_then_def
  by (auto split: sum.splits if_splits)
























subsection \<open>An id that matches no row\<close>

lemma filter_absent: "\<not> list_ex P xs \<Longrightarrow> filter (\<lambda>x. \<not> P x) xs = xs"
  by (induction xs) auto

lemma reference_exists:
  "list_all (\<lambda>h. list_ex (\<lambda>e. eid e = etapa_id h) es) hs \<Longrightarrow> list_ex (\<lambda>h. etapa_id h = i) hs
   \<Longrightarrow> list_ex (\<lambda>e. eid e = i) es"
  by (induction hs) auto

text \<open>
  The foreign key is no assumption on the routes: every statement that writes keeps
  it, and so does every route.
\<close>

lemma foreign_key_rows:
  "foreign_key d = (\<forall>h \<in> set (hitos d). \<exists>e \<in> set (etapas d). eid e = etapa_id h)"
  by (simp add: foreign_key_def list_all_iff list_ex_iff)

lemma foreign_key_faults: "foreign_key (d\<lparr>faults := fs\<rparr>) = foreign_key d"
  by (simp add: foreign_key_def)

lemma INSERT_etapas_foreign_key:
  "INSERT_etapas cv a b x = (y, z) \<Longrightarrow> foreign_key x \<Longrightarrow> foreign_key z"
  unfolding INSERT_etapas_def foreign_key_rows
  by (auto simp: add_etapa_def split: if_splits sum.splits)

lemma DELETE_etapas_foreign_key:
  "DELETE_etapas i x = (y, z) \<Longrightarrow> hitos_table x \<Longrightarrow> foreign_key x \<Longrightarrow> foreign_key z"
  unfolding DELETE_etapas_def foreign_key_rows
  by (auto simp: list_ex_iff split: if_splits) metis

lemma INSERT_hitos_foreign_key:
  "INSERT_hitos cv a b c e f g h x = (y, z) \<Longrightarrow> foreign_key x \<Longrightarrow> foreign_key z"
  unfolding INSERT_hitos_def foreign_key_rows and_then_def
  by (auto simp: list_ex_iff set_columns_def split: if_splits sum.splits dest!: hito_columns_Inr)
    blast+

lemma UPDATE_hitos_foreign_key:
  "UPDATE_hitos cv a b c e f g i x = (y, z) \<Longrightarrow> foreign_key x \<Longrightarrow> foreign_key z"
  unfolding UPDATE_hitos_def foreign_key_rows
  by (auto simp: list_ex_iff set_columns_def split: if_splits sum.splits dest!: hito_columns_Inr)
    blast+

lemma DELETE_hitos_foreign_key:
  "DELETE_hitos i x = (y, z) \<Longrightarrow> foreign_key x \<Longrightarrow> foreign_key z"
  unfolding DELETE_hitos_def foreign_key_rows
  by (auto split: if_splits)

lemma SELECT_COUNT_hitos_reads:
  "SELECT_COUNT_hitos i x = (y, z) \<Longrightarrow> z = x \<and> (\<forall>n. y = Inr n \<longrightarrow> hitos_table x)"
  unfolding SELECT_COUNT_hitos_def by (auto split: if_splits)

lemma post_etapas_foreign_key:
  assumes "foreign_key d"
  shows "foreign_key (snd (post_etapas cv req_body d))"
proof -
  let ?st = "INSERT_etapas cv (field_of req_body ''nombre'') (field_of req_body ''color'')"
  obtain r d' where q: "pool_query ?st d = (r, d')"
    by (cases "pool_query ?st d") auto
  have "foreign_key d'"
    using pool_query_cases [OF q] assms INSERT_etapas_foreign_key [of cv _ _ "d\<lparr>faults := tl (faults d)\<rparr>" r d']
    by (auto simp: foreign_key_faults)
  then show ?thesis
    using q by (simp add: post_etapas_def Let_def split: sum.splits)
qed

lemma delete_etapas_foreign_key:
  assumes "foreign_key d"
  shows "foreign_key (snd (delete_etapas i d))"
proof -
  obtain r1 d1 where q1: "pool_query (SELECT_COUNT_hitos i) d = (r1, d1)"
    by (cases "pool_query (SELECT_COUNT_hitos i) d") auto
  obtain r2 d2 where q2: "pool_query (DELETE_etapas i) d1 = (r2, d2)"
    by (cases "pool_query (DELETE_etapas i) d1") auto
  have d1: "d1 = d\<lparr>faults := tl (faults d)\<rparr>" and t: "\<forall>n. r1 = Inr n \<longrightarrow> hitos_table d1"
    using pool_query_cases [OF q1] SELECT_COUNT_hitos_reads by fastforce+
  then have fk1: "foreign_key d1"
    using assms by (simp add: foreign_key_faults)
  have "foreign_key d2" if "hitos_table d1"
    using pool_query_cases [OF q2] fk1 that
      DELETE_etapas_foreign_key [of i "d1\<lparr>faults := tl (faults d1)\<rparr>" r2 d2]
    by (auto simp: foreign_key_faults)
  then show ?thesis
    using q1 q2 fk1 t by (auto simp: delete_etapas_def split: sum.splits)
qed

lemma post_hitos_foreign_key:
  assumes "foreign_key d"
  shows "foreign_key (snd (post_hitos cv req_body d))"
proof -
  let ?st = "INSERT_hitos cv (field_of req_body ''item'') (field_of req_body ''etapa_id'')
                (field_of req_body ''fecha_inicio'') (field_of req_body ''ubicacion'')
                (or_null (field_of req_body ''fecha_finalizacion''))
                (field_of req_body ''comentarios'') (field_of req_body ''ilustracion'')"
  obtain r d' where q: "pool_query ?st d = (r, d')"
    by (cases "pool_query ?st d") auto
  have "foreign_key d'"
    using pool_query_cases [OF q] assms
      INSERT_hitos_foreign_key [of cv _ _ _ _ _ _ _ "d\<lparr>faults := tl (faults d)\<rparr>" r d']
    by (auto simp: foreign_key_faults)
  then show ?thesis
    using q by (simp add: post_hitos_def split: sum.splits)
qed

lemma put_hitos_foreign_key:
  assumes "foreign_key d"
  shows "foreign_key (snd (put_hitos cv i req_body d))"
proof -
  let ?st = "UPDATE_hitos cv (field_of req_body ''etapa_id'')
                (field_of req_body ''fecha_inicio'') (field_of req_body ''ubicacion'')
                (or_null (field_of req_body ''fecha_finalizacion''))
                (field_of req_body ''comentarios'') (field_of req_body ''ilustracion'') i"
  obtain r d' where q: "pool_query ?st d = (r, d')"
    by (cases "pool_query ?st d") auto
  have "foreign_key d'"
    using pool_query_cases [OF q] assms
      UPDATE_hitos_foreign_key [of cv _ _ _ _ _ _ i "d\<lparr>faults := tl (faults d)\<rparr>" r d']
    by (auto simp: foreign_key_faults)
  then show ?thesis
    using q by (simp add: put_hitos_def split: sum.splits)
qed

lemma delete_hitos_foreign_key:
  assumes "foreign_key d"
  shows "foreign_key (snd (delete_hitos i d))"
proof -
  obtain r d' where q: "pool_query (DELETE_hitos i) d = (r, d')"
    by (cases "pool_query (DELETE_hitos i) d") auto
  have "foreign_key d'"
    using pool_query_cases [OF q] assms
      DELETE_hitos_foreign_key [of i "d\<lparr>faults := tl (faults d)\<rparr>" r d']
    by (auto simp: foreign_key_faults)
  then show ?thesis
    using q by (simp add: delete_hitos_def split: sum.splits)
qed

text \<open>
  \<^bold>\<open>C8.\<close> For an \<^verbatim>\<open>id\<close> that matches no row, the delete route of \<^verbatim>\<open>etapas\<close>, the
  update route of \<^verbatim>\<open>hitos\<close> and the delete route of \<^verbatim>\<open>hitos\<close> answer 200 with
  \<^verbatim>\<open>{success: true}\<close> (no route answers 404), and the database is as before. For the
  stage, the foreign key says that no milestone names a stage that is not there.
\<close>

theorem absent_id_succeeds:
  assumes "etapas_table d" and "hitos_table d" and "faults d = []"
    and "foreign_key d"
    and "\<not> list_ex (\<lambda>e. eid e = i) (etapas d)"
    and "\<not> list_ex (\<lambda>h. hid h = j) (hitos d)"
  shows "delete_etapas i d = ((200, Json_success), d)
    \<and> put_hitos cv j req_body d = ((200, Json_success), d)
    \<and> delete_hitos j d = ((200, Json_success), d)"
proof (intro conjI)
  have "\<not> list_ex (\<lambda>h. etapa_id h = i) (hitos d)"
    using assms(4,5) reference_exists unfolding foreign_key_def by blast
  then have "length (filter (\<lambda>h. etapa_id h = i) (hitos d)) = 0"
    by (simp add: list_ex_iff filter_empty_conv)
  moreover have "filter (\<lambda>e. eid e \<noteq> i) (etapas d) = etapas d"
    using filter_absent [OF assms(5)] by simp
  ultimately have "DELETE_etapas i d = (Inr (), d)"
    and "SELECT_COUNT_hitos i d = (Inr 0, d)"
    using assms(1,2,5) by (simp_all add: DELETE_etapas_def SELECT_COUNT_hitos_def)
  then show "delete_etapas i d = ((200, Json_success), d)"
    using assms(3) by (simp add: delete_etapas_def pool_query_no_faults)
next
  show "put_hitos cv j req_body d = ((200, Json_success), d)"
    using assms(1-3,6) by (simp add: put_hitos_def pool_query_no_faults UPDATE_hitos_def)
next
  have "filter (\<lambda>h. hid h \<noteq> j) (hitos d) = hitos d"
    using filter_absent [OF assms(6)] by simp
  then show "delete_hitos j d = ((200, Json_success), d)"
    using assms(1-3) by (simp add: delete_hitos_def pool_query_no_faults DELETE_hitos_def)
qed

theorem absent_id_succeeds_witness:
  "etapas_table db0 \<and> hitos_table db0 \<and> faults db0 = [] \<and> foreign_key db0
   \<and> \<not> list_ex (\<lambda>e. eid e = 7) (etapas db0)
   \<and> \<not> list_ex (\<lambda>h. hid h = 9) (hitos db0)
   \<and> delete_etapas 7 db0 = ((200, Json_success), db0)
   \<and> put_hitos plain 9 body_move db0 = ((200, Json_success), db0)
   \<and> delete_hitos 9 db0 = ((200, Json_success), db0)"
proof -
  have fk: "foreign_key db0"
    by (simp add: foreign_key_def db0_def hito_madrid_def)
  have no_stage: "\<not> list_ex (\<lambda>e. eid e = 7) (etapas db0)"
    by (simp add: db0_def)
  have no_hito: "\<not> list_ex (\<lambda>h. hid h = 9) (hitos db0)"
    by (simp add: db0_def hito_madrid_def)
  show ?thesis
    using absent_id_succeeds [OF db0_ready fk no_stage no_hito, of plain body_move]
      db0_ready fk no_stage no_hito
    by simp
qed

subsection \<open>Creating a stage\<close>

lemma post_no_color:
  "post_etapas plain body_no_color db0 = ((500, Json_error Error_al_crear_etapa), db0)"
  by (simp add: post_etapas_def INSERT_etapas_def run_defs body_no_color_def db0_def)

lemma post_no_nombre:
  "post_etapas plain body_no_nombre db0 = ((500, Json_error Error_al_crear_etapa), db0)"
  by (simp add: post_etapas_def INSERT_etapas_def run_defs body_no_nombre_def db0_def)

text \<open>
  \<^bold>\<open>C7\<close>, as the claim states it, fails: not every request is answered 201. A body
  without \<^verbatim>\<open>color\<close> is answered 500 and no stage is stored, so no stage of color
  \<^verbatim>\<open>#4f46e5\<close> is created; a body without \<^verbatim>\<open>nombre\<close> is answered 500 as well.
\<close>

theorem post_etapas_counterexample:
  "post_etapas plain body_no_color db0 = ((500, Json_error Error_al_crear_etapa), db0)
   \<and> field_of body_no_color ''nombre'' = JStr ''Review''
   \<and> field_of body_no_color ''color'' = JUndefined
   \<and> post_etapas plain body_no_nombre db0 = ((500, Json_error Error_al_crear_etapa), db0)
   \<and> field_of body_no_nombre ''nombre'' = JUndefined
   \<and> field_of body_no_nombre ''color'' = JStr ''#123456''"
  using post_no_color post_no_nombre
  by (simp add: field_of_def body_no_color_def body_no_nombre_def)

text \<open>
  \<^bold>\<open>C7\<close>, amended. For every request whose body gives a \<^verbatim>\<open>nombre\<close> and a \<^verbatim>\<open>color\<close>
  that the columns take (neither absent nor \<^verbatim>\<open>null\<close>), the route stores the row
  under the next generated \<^verbatim>\<open>id\<close> and answers 201 with that \<^verbatim>\<open>id\<close> and the \<^verbatim>\<open>nombre\<close>
  and \<^verbatim>\<open>color\<close> of the body.
\<close>

theorem post_etapas_created:
  assumes "etapas_table d" and "faults d = []"
    and "escape (field_of req_body ''nombre'') \<noteq> SqlNull"
    and "text_of cv 100 (escape (field_of req_body ''nombre'')) = Some n"
    and "escape (field_of req_body ''color'') \<noteq> SqlNull"
    and "text_of cv 7 (escape (field_of req_body ''color'')) = Some c"
  shows "post_etapas cv req_body d =
     ((201, Json_etapa (etapas_auto d) (field_of req_body ''nombre'') (field_of req_body ''color'')),
      d\<lparr>etapas := etapas d @ [\<lparr>eid = etapas_auto d, nombre = n, color = c\<rparr>],
        etapas_auto := etapas_auto d + 1\<rparr>)"
  using assms
  by (simp add: post_etapas_def pool_query_no_faults INSERT_etapas_def add_etapa_def
      and_then_def not_null_def)

theorem post_etapas_created_witness:
  "etapas_table db0 \<and> faults db0 = []
   \<and> escape (field_of body_etapa ''nombre'') \<noteq> SqlNull
   \<and> text_of plain 100 (escape (field_of body_etapa ''nombre'')) = Some ''Review''
   \<and> escape (field_of body_etapa ''color'') \<noteq> SqlNull
   \<and> text_of plain 7 (escape (field_of body_etapa ''color'')) = Some ''#123456''
   \<and> post_etapas plain body_etapa db0 =
       ((201, Json_etapa 3 (JStr ''Review'') (JStr ''#123456'')),
        db0\<lparr>etapas := etapas db0 @ [\<lparr>eid = 3, nombre = ''Review'', color = ''#123456''\<rparr>],
            etapas_auto := 4\<rparr>)"
proof -
  have n: "escape (field_of body_etapa ''nombre'') \<noteq> SqlNull"
    "text_of plain 100 (escape (field_of body_etapa ''nombre'')) = Some ''Review''"
    by (simp_all add: field_of_def body_etapa_def plain_def)
  have c: "escape (field_of body_etapa ''color'') \<noteq> SqlNull"
    "text_of plain 7 (escape (field_of body_etapa ''color'')) = Some ''#123456''"
    by (simp_all add: field_of_def body_etapa_def plain_def)
  have "post_etapas plain body_etapa db0 =
       ((201, Json_etapa 3 (JStr ''Review'') (JStr ''#123456'')),
        db0\<lparr>etapas := etapas db0 @ [\<lparr>eid = 3, nombre = ''Review'', color = ''#123456''\<rparr>],
            etapas_auto := 4\<rparr>)"
    using post_etapas_created [OF db0_ready(1) db0_ready(3) n c]
    by (simp add: field_of_def body_etapa_def db0_def)
  then show ?thesis
    using n c db0_ready by simp
qed

subsection \<open>The optional columns of a milestone\<close>





section \<open>The connection of \<^verbatim>\<open>initDB\<close>\<close>

lemma round_trip_leased:
  "round_trip statement d = (r, d') \<Longrightarrow> (\<And>x y z. statement x = (y, z) \<Longrightarrow> leased z = leased x)
   \<Longrightarrow> leased d' = leased d"
  unfolding round_trip_def by (auto split: list.splits if_splits)

lemma statements_leased:
  "CREATE_etapas x = (y1, z1) \<Longrightarrow> leased z1 = leased x"
  "CREATE_hitos x = (y2, z2) \<Longrightarrow> leased z2 = leased x"
  "SELECT_etapas x = (y3, z3) \<Longrightarrow> leased z3 = leased x"
  "INSERT_seed x = (y4, z4) \<Longrightarrow> leased z4 = leased x"
  by (auto simp: CREATE_etapas_def CREATE_hitos_def SELECT_etapas_def INSERT_seed_def
      add_etapa_def split: if_splits)

lemma connection_query_leased:
  "connection_query CREATE_etapas d = (y1, z1) \<Longrightarrow> leased z1 = leased d"
  "connection_query CREATE_hitos d = (y2, z2) \<Longrightarrow> leased z2 = leased d"
  "connection_query SELECT_etapas d = (y3, z3) \<Longrightarrow> leased z3 = leased d"
  "connection_query INSERT_seed d = (y4, z4) \<Longrightarrow> leased z4 = leased d"
  unfolding connection_query_def
  by (erule round_trip_leased, erule statements_leased)+

lemma getConnection_leased:
  "getConnection d = (Inr u, d0) \<Longrightarrow> leased d0 = leased d + 1"
  "getConnection d = (Inl err, d0) \<Longrightarrow> leased d0 = leased d"
  unfolding getConnection_def round_trip_def by (auto split: list.splits if_splits)

text \<open>What \<^verbatim>\<open>initDB\<close> leaves in the pool: the connection is back when the console says
  that the database was initialised, and when no connection was obtained; every other
  run keeps it.\<close>

lemma initDB_leased:
  assumes "initDB d = (out, d')"
  shows "leased d' =
     (if out = Base_de_datos_inicializada then leased d
      else if fst (getConnection d) = Inl ER_REJECTED then leased d
      else leased d + 1)"
proof (cases "getConnection d")
  case (Pair r0 d0)
  show ?thesis
  proof (cases r0)
    case (Inl err)
    then have "err = ER_REJECTED"
      using Pair unfolding getConnection_def round_trip_def
      by (auto split: list.splits if_splits)
    then show ?thesis
      using assms Pair Inl getConnection_leased(2) [of d err d0]
      by (auto simp: initDB_def)
  next
    case (Inr u)
    note l0 = getConnection_leased(1) [OF Pair [unfolded Inr]]
    obtain r1 d1 where q1: "connection_query CREATE_etapas d0 = (r1, d1)"
      by (cases "connection_query CREATE_etapas d0") auto
    obtain r2 d2 where q2: "connection_query CREATE_hitos d1 = (r2, d2)"
      by (cases "connection_query CREATE_hitos d1") auto
    obtain r3 d3 where q3: "connection_query SELECT_etapas d2 = (r3, d3)"
      by (cases "connection_query SELECT_etapas d2") auto
    obtain r4 d4 where q4: "connection_query INSERT_seed d3 = (r4, d4)"
      by (cases "connection_query INSERT_seed d3") auto
    note l = connection_query_leased(1) [OF q1] connection_query_leased(2) [OF q2]
      connection_query_leased(3) [OF q3] connection_query_leased(4) [OF q4]
    show ?thesis
      using assms Pair Inr q1 q2 q3 q4 l l0
      by (auto simp: initDB_def initDB_seed_def release_def split: sum.splits if_splits)
  qed
qed

text \<open>A run without failure on a database that has its tables and stages: nothing is
  created or inserted, and the connection is back in the pool.\<close>

lemma initDB_db0: "initDB db0 = (Base_de_datos_inicializada, db0)"
  by (simp add: initDB_def initDB_seed_def getConnection_def connection_query_def round_trip_def
      CREATE_etapas_def CREATE_hitos_def SELECT_etapas_def release_def db0_def)

text \<open>
  \<^bold>\<open>C4.\<close> The claim is that every run of \<^verbatim>\<open>initDB\<close> gives the connection back. The
  code does not: when the connection is obtained and the first \<^verbatim>\<open>CREATE TABLE\<close> is
  rejected, the \<^verbatim>\<open>catch\<close> block writes the error and the pool is left with one
  connection leased, where it had none.
\<close>

theorem initDB_keeps_connection:
  "initDB (db0\<lparr>faults := [False, True]\<rparr>)
     = (Error_al_inicializar ER_REJECTED, db0\<lparr>faults := [], leased := 1\<rparr>)
   \<and> leased db0 = 0"
  by (simp add: initDB_def getConnection_def connection_query_def round_trip_def db0_def)

end
